theory Spec2Isabelle
  imports Complex_Main "HOL-Library.Char_ord" "HOL-Library.List_Lexorder"
begin

section \<open>The Dewp ETL component\<close>

text \<open>
  A shallow embedding of \<^verbatim>\<open>src/dewp/transformers/dewp_transformers.py\<close>: the two
  configuration tuples and the methods \<^verbatim>\<open>extract\<close>, \<^verbatim>\<open>transform_report1\<close> and
  \<^verbatim>\<open>load\<close> of \<^verbatim>\<open>DewpETL\<close>.  The methods are written over a small model of the pandas
  operations they call; each operation raises what pandas raises, as an error value.
\<close>

subsection \<open>Relations\<close>

text \<open>
  A cell of a data frame is a number, a text or a missing value (pandas' NaN).  The
  numbers are any linearly ordered type with a zero: the code only compares them, takes
  minima and maxima, and fills in zero, so the 64-bit integers and the floating-point
  numbers other than NaN are both covered.
\<close>

datatype 'n cell = Num 'n | Str string | NaN

text \<open>
  A data frame has its column labels and its rows, each row giving one cell per column.
  The frames of pandas are rectangular and the ones \<^verbatim>\<open>read_csv\<close> builds have distinct
  labels; \<open>wf_frame\<close> says so.
\<close>

record 'n frame =
  columns :: "string list"
  rows :: "'n cell list list"

definition wf_frame :: "'n frame \<Rightarrow> bool" where
  "wf_frame df \<longleftrightarrow>
     distinct (columns df) \<and> list_all (\<lambda>r. length r = length (columns df)) (rows df)"

text \<open>\<^verbatim>\<open>pd.DataFrame()\<close>: no columns and no rows.\<close>

definition DataFrame :: "'n frame" where
  "DataFrame = \<lparr>columns = [], rows = []\<rparr>"

text \<open>\<^verbatim>\<open>DataFrame.empty\<close>: true when any axis has length zero.\<close>

definition df_empty :: "'n frame \<Rightarrow> bool" where
  "df_empty df \<longleftrightarrow> columns df = [] \<or> rows df = []"

text \<open>The cell of a row under a label.\<close>

definition cell_of :: "string list \<Rightarrow> 'n cell list \<Rightarrow> string \<Rightarrow> 'n cell" where
  "cell_of cols r c = (case map_of (zip cols r) c of Some v \<Rightarrow> v | None \<Rightarrow> NaN)"

subsection \<open>Errors\<close>

text \<open>
  The exceptions of pandas that \<^verbatim>\<open>transform_report1\<close> can meet: \<open>KeyError\<close> for a label
  that is not a column, \<open>UndefinedVariableError\<close> for a name in a query expression that is
  neither a column nor a variable, \<open>TypeError\<close> for the comparison of a text with a
  number.  \<open>UnreadExpression\<close> stands for a query expression outside the shape modelled
  here (see \<open>query\<close>); it is no statement about pandas.
\<close>

datatype pd_error = KeyError | UndefinedVariableError | TypeError | UnreadExpression

subsection \<open>Configuration\<close>

record DewpSourceConfig =
  src_columns :: "string list"
  src_col_year :: string
  src_col_industry_aggregation_knzsioc :: string
  src_col_industry_code_nzsioc :: string
  src_col_value :: string
  src_col_year_filter :: string
  src_files_prefix :: string
  src_format :: string

record DewpTargetConfig =
  trg_columns :: "string list"
  trg_col_year :: string
  trg_col_industry_aggregation_knzsioc :: string
  trg_col_industry_code_nzsioc :: string
  trg_col_min_value :: string
  trg_col_max_value :: string
  trg_key :: string
  trg_key_date_format :: string
  trg_format :: string

text \<open>
  The configurations the model covers: the four named columns are distinct and among the
  distinct source columns, and no key column has the label of an aggregate.
\<close>

definition wf_config :: "DewpSourceConfig \<Rightarrow> bool" where
  "wf_config src \<longleftrightarrow>
     distinct (src_columns src) \<and>
     distinct [src_col_year src, src_col_industry_aggregation_knzsioc src,
               src_col_industry_code_nzsioc src, src_col_value src] \<and>
     list_all (\<lambda>c. c \<in> set (src_columns src))
       [src_col_year src, src_col_industry_aggregation_knzsioc src,
        src_col_industry_code_nzsioc src, src_col_value src] \<and>
     list_all (\<lambda>c. c \<noteq> ''min_value'' \<and> c \<noteq> ''max_value'')
       [src_col_year src, src_col_industry_aggregation_knzsioc src,
        src_col_industry_code_nzsioc src]"

subsection \<open>The pandas operations of \<^verbatim>\<open>transform_report1\<close>\<close>

text \<open>\<^verbatim>\<open>df.loc[:, names]\<close>: the named columns in the order named; \<open>KeyError\<close> when a
  name is not a column.\<close>

definition loc_columns :: "string list \<Rightarrow> 'n frame \<Rightarrow> pd_error + 'n frame" where
  "loc_columns names df =
     (if list_all (\<lambda>c. c \<in> set (columns df)) names
      then Inr \<lparr>columns = names,
                rows = map (\<lambda>r. map (cell_of (columns df) r) names) (rows df)\<rparr>
      else Inl KeyError)"

text \<open>\<^verbatim>\<open>df[c]\<close>: the column as a series; \<open>KeyError\<close> when there is none.\<close>

definition getitem :: "'n frame \<Rightarrow> string \<Rightarrow> pd_error + 'n cell list" where
  "getitem df c =
     (if c \<in> set (columns df) then Inr (map (\<lambda>r. cell_of (columns df) r c) (rows df))
      else Inl KeyError)"

text \<open>\<^verbatim>\<open>df[c] = series\<close>: replaces the column when there is one, appends it otherwise.
  \<open>put_cell\<close> writes one cell of a row.\<close>

definition put_cell :: "string list \<Rightarrow> string \<Rightarrow> 'n cell \<Rightarrow> 'n cell list \<Rightarrow> 'n cell list" where
  "put_cell cols c v r = map (\<lambda>(n, x). if n = c then v else x) (zip cols r)"

definition setitem :: "'n frame \<Rightarrow> string \<Rightarrow> 'n cell list \<Rightarrow> 'n frame" where
  "setitem df c vs =
     (if c \<in> set (columns df)
      then df\<lparr>rows := map (\<lambda>(r, v). put_cell (columns df) c v r) (zip (rows df) vs)\<rparr>
      else \<lparr>columns = columns df @ [c], rows = map (\<lambda>(r, v). r @ [v]) (zip (rows df) vs)\<rparr>)"

text \<open>
  \<^verbatim>\<open>pd.to_numeric(series, errors='coerce')\<close>: a number stays, a text is parsed, and
  what does not parse becomes NaN.  The parser of pandas is the parameter \<open>parse\<close>: it
  gives the number a text denotes, or \<open>None\<close>.
\<close>

fun to_numeric_cell :: "(string \<Rightarrow> 'n option) \<Rightarrow> 'n cell \<Rightarrow> 'n cell" where
  "to_numeric_cell parse (Num x) = Num x"
| "to_numeric_cell parse (Str s) = (case parse s of Some x \<Rightarrow> Num x | None \<Rightarrow> NaN)"
| "to_numeric_cell parse NaN = NaN"

definition to_numeric :: "(string \<Rightarrow> 'n option) \<Rightarrow> 'n cell list \<Rightarrow> 'n cell list" where
  "to_numeric parse s = map (to_numeric_cell parse) s"

text \<open>\<^verbatim>\<open>series.fillna(v)\<close>.\<close>

fun fillna_cell :: "'n \<Rightarrow> 'n cell \<Rightarrow> 'n cell" where
  "fillna_cell v NaN = Num v"
| "fillna_cell v c = c"

definition fillna :: "'n cell list \<Rightarrow> 'n \<Rightarrow> 'n cell list" where
  "fillna s v = map (fillna_cell v) s"

text \<open>
  \<^verbatim>\<open>df.query(expr)\<close> for the expressions the code builds, a column name, \<^verbatim>\<open>>=\<close> and the
  configured filter.  How pandas reads the text of the expression is the parameter
  \<open>rd\<close>: \<open>Some (c, t)\<close> when the text compares the name \<open>c\<close> with the numeric literal
  \<open>t\<close>.  Then a name that is not a column is undefined, a text in the column cannot be
  compared with a number, and otherwise the rows whose cell is a number at least \<open>t\<close>
  stay; NaN compares false.
\<close>

fun ge_cell :: "'n::linorder \<Rightarrow> 'n cell \<Rightarrow> bool" where
  "ge_cell t (Num y) = (t \<le> y)"
| "ge_cell t _ = False"

fun is_Str :: "'n cell \<Rightarrow> bool" where
  "is_Str (Str s) = True"
| "is_Str _ = False"

definition query ::
  "(string \<Rightarrow> (string \<times> 'n::linorder) option) \<Rightarrow> string \<Rightarrow> 'n frame \<Rightarrow> pd_error + 'n frame" where
  "query rd expr df =
     (case rd expr of
        None \<Rightarrow> Inl UnreadExpression
      | Some (c, t) \<Rightarrow>
          if c \<notin> set (columns df) then Inl UndefinedVariableError
          else if list_ex (\<lambda>r. is_Str (cell_of (columns df) r c)) (rows df) then Inl TypeError
          else Inr (df\<lparr>rows := filter (\<lambda>r. ge_cell t (cell_of (columns df) r c)) (rows df)\<rparr>))"

text \<open>
  The order in which \<^verbatim>\<open>groupby\<close> (with its default \<^verbatim>\<open>sort=True\<close>) returns the groups:
  by the key columns from left to right, numbers by value, texts by code point, numbers
  before texts.
\<close>

fun cell_le :: "'n::linorder cell \<Rightarrow> 'n cell \<Rightarrow> bool" where
  "cell_le (Num a) (Num b) = (a \<le> b)"
| "cell_le (Num a) _ = True"
| "cell_le (Str a) (Num b) = False"
| "cell_le (Str a) (Str b) = (a \<le> b)"
| "cell_le (Str a) NaN = True"
| "cell_le NaN NaN = True"
| "cell_le NaN _ = False"

fun key_le :: "'n::linorder cell list \<Rightarrow> 'n cell list \<Rightarrow> bool" where
  "key_le [] ys = True"
| "key_le (x # xs) [] = False"
| "key_le (x # xs) (y # ys) = (if x = y then key_le xs ys else cell_le x y)"

fun insert_key :: "'n::linorder cell list \<Rightarrow> 'n cell list list \<Rightarrow> 'n cell list list" where
  "insert_key k [] = [k]"
| "insert_key k (x # xs) = (if key_le k x then k # x # xs else x # insert_key k xs)"

definition sort_keys :: "'n::linorder cell list list \<Rightarrow> 'n cell list list" where
  "sort_keys ks = foldr insert_key ks []"

text \<open>The aggregations \<^verbatim>\<open>'min'\<close> and \<^verbatim>\<open>'max'\<close> of a numeric column: over the numbers,
  NaN when there is none.\<close>

fun nums :: "'n cell list \<Rightarrow> 'n list" where
  "nums [] = []"
| "nums (Num x # cs) = x # nums cs"
| "nums (c # cs) = nums cs"

definition agg_min :: "'n::linorder cell list \<Rightarrow> 'n cell" where
  "agg_min cs = (case nums cs of [] \<Rightarrow> NaN | x # xs \<Rightarrow> Num (fold min xs x))"

definition agg_max :: "'n::linorder cell list \<Rightarrow> 'n cell" where
  "agg_max cs = (case nums cs of [] \<Rightarrow> NaN | x # xs \<Rightarrow> Num (fold max xs x))"

text \<open>
  \<^verbatim>\<open>df.groupby(keys, as_index=False).agg(min_value=(c, 'min'), max_value=(c, 'max'))\<close>.
  A label that is not a column is a \<open>KeyError\<close>.  With the default \<^verbatim>\<open>dropna=True\<close>, a
  row with NaN in a key column belongs to no group.  The result has the key columns,
  then the two aggregates, and one row for each key, in sorted order.
\<close>

definition key_of :: "string list \<Rightarrow> string list \<Rightarrow> 'n cell list \<Rightarrow> 'n cell list" where
  "key_of cols keys r = map (cell_of cols r) keys"

definition groupby_agg :: "string list \<Rightarrow> string \<Rightarrow> 'n::linorder frame \<Rightarrow> pd_error + 'n frame" where
  "groupby_agg keys c df =
     (if \<not> list_all (\<lambda>k. k \<in> set (columns df)) keys \<or> c \<notin> set (columns df) then Inl KeyError
      else
        let kept = filter (\<lambda>r. NaN \<notin> set (key_of (columns df) keys r)) (rows df);
            groups = sort_keys (remdups (map (key_of (columns df) keys) kept))
        in Inr \<lparr>columns = keys @ [''min_value'', ''max_value''],
                rows = map (\<lambda>k.
                  let vs = map (\<lambda>r. cell_of (columns df) r c)
                             (filter (\<lambda>r. key_of (columns df) keys r = k) kept)
                  in k @ [agg_min vs, agg_max vs]) groups\<rparr>)"

text \<open>\<^verbatim>\<open>df.rename(columns=mapping)\<close>: every label the mapping has is replaced.\<close>

definition rename :: "(string \<times> string) list \<Rightarrow> 'n frame \<Rightarrow> 'n frame" where
  "rename m df =
     df\<lparr>columns := map (\<lambda>c. case map_of m c of Some c' \<Rightarrow> c' | None \<Rightarrow> c) (columns df)\<rparr>"

subsection \<open>\<^verbatim>\<open>DewpETL.transform_report1\<close>\<close>

text \<open>The steps of the method after the guard, one definition for each.\<close>

definition project_step :: "DewpSourceConfig \<Rightarrow> 'n frame \<Rightarrow> pd_error + 'n frame" where
  "project_step src df = loc_columns (src_columns src) df"

definition coerce_step ::
  "(string \<Rightarrow> 'n::zero option) \<Rightarrow> DewpSourceConfig \<Rightarrow> 'n frame \<Rightarrow> pd_error + 'n frame" where
  "coerce_step parse src df =
     (case getitem df (src_col_value src) of
        Inl e \<Rightarrow> Inl e
      | Inr s \<Rightarrow>
          let df' = setitem df (src_col_value src) (to_numeric parse s)
          in (case getitem df' (src_col_value src) of
                Inl e \<Rightarrow> Inl e
              | Inr s' \<Rightarrow> Inr (setitem df' (src_col_value src) (fillna s' 0))))"

definition filter_step ::
  "(string \<Rightarrow> (string \<times> 'n::linorder) option) \<Rightarrow> DewpSourceConfig \<Rightarrow> 'n frame
     \<Rightarrow> pd_error + 'n frame" where
  "filter_step rd src df = query rd (src_col_year src @ ''>='' @ src_col_year_filter src) df"

definition aggregate_step :: "DewpSourceConfig \<Rightarrow> 'n::linorder frame \<Rightarrow> pd_error + 'n frame" where
  "aggregate_step src df =
     groupby_agg [src_col_year src, src_col_industry_aggregation_knzsioc src,
                  src_col_industry_code_nzsioc src] (src_col_value src) df"

definition rename_step :: "DewpTargetConfig \<Rightarrow> 'n frame \<Rightarrow> 'n frame" where
  "rename_step trg df =
     rename [(''min_value'', trg_col_min_value trg), (''max_value'', trg_col_max_value trg)] df"

definition transform_report1 ::
  "(string \<Rightarrow> 'n::{linorder,zero} option) \<Rightarrow> (string \<Rightarrow> (string \<times> 'n) option)
     \<Rightarrow> DewpSourceConfig \<Rightarrow> DewpTargetConfig \<Rightarrow> 'n frame \<Rightarrow> pd_error + 'n frame" where
  "transform_report1 parse rd src trg data_frame =
     (if df_empty data_frame then Inr data_frame
      else case project_step src data_frame of
        Inl e \<Rightarrow> Inl e
      | Inr df1 \<Rightarrow>
     (case coerce_step parse src df1 of
        Inl e \<Rightarrow> Inl e
      | Inr df2 \<Rightarrow>
     (case filter_step rd src df2 of
        Inl e \<Rightarrow> Inl e
      | Inr df3 \<Rightarrow>
     (case aggregate_step src df3 of
        Inl e \<Rightarrow> Inl e
      | Inr df4 \<Rightarrow> Inr (rename_step trg df4)))))"


text \<open>The cell that the two assignments of the coercion leave in the value column.\<close>

definition coerce_cell :: "(string \<Rightarrow> 'n::zero option) \<Rightarrow> 'n cell \<Rightarrow> 'n cell" where
  "coerce_cell parse x = fillna_cell 0 (to_numeric_cell parse x)"

text \<open>The number in that cell.\<close>

fun coerced_num :: "(string \<Rightarrow> 'n::zero option) \<Rightarrow> 'n cell \<Rightarrow> 'n" where
  "coerced_num parse (Num x) = x"
| "coerced_num parse (Str s) = (case parse s of Some x \<Rightarrow> x | None \<Rightarrow> 0)"
| "coerced_num parse NaN = 0"

text \<open>
  The relation between the input of \<open>transform_report1\<close> and what the aggregation sees:
  the rows that pass the year filter with threshold \<open>t\<close>, the grouping key of a row, the
  rows whose key has no missing component, and the coerced values of the rows of a key.
\<close>

definition retained_rows :: "'n::linorder \<Rightarrow> DewpSourceConfig \<Rightarrow> 'n frame \<Rightarrow> 'n cell list list" where
  "retained_rows t src df =
     filter (\<lambda>r. ge_cell t (cell_of (columns df) r (src_col_year src))) (rows df)"

definition group_key :: "DewpSourceConfig \<Rightarrow> 'n frame \<Rightarrow> 'n cell list \<Rightarrow> 'n cell list" where
  "group_key src df r =
     key_of (columns df) [src_col_year src, src_col_industry_aggregation_knzsioc src,
                          src_col_industry_code_nzsioc src] r"

definition grouped_rows :: "'n::linorder \<Rightarrow> DewpSourceConfig \<Rightarrow> 'n frame \<Rightarrow> 'n cell list list" where
  "grouped_rows t src df = filter (\<lambda>r. NaN \<notin> set (group_key src df r)) (retained_rows t src df)"

definition group_values ::
  "(string \<Rightarrow> 'n option) \<Rightarrow> 'n::{linorder,zero} \<Rightarrow> DewpSourceConfig \<Rightarrow> 'n frame \<Rightarrow> 'n cell list
     \<Rightarrow> 'n list" where
  "group_values parse t src df k =
     map (\<lambda>r. coerced_num parse (cell_of (columns df) r (src_col_value src)))
       (filter (\<lambda>r. group_key src df r = k) (grouped_rows t src df))"

text \<open>A row of the input after the projection and the coercion.\<close>

definition prepared_row ::
  "(string \<Rightarrow> 'n::zero option) \<Rightarrow> DewpSourceConfig \<Rightarrow> string list \<Rightarrow> 'n cell list \<Rightarrow> 'n cell list" where
  "prepared_row parse src cols r =
     put_cell (src_columns src) (src_col_value src)
       (coerce_cell parse (cell_of cols r (src_col_value src)))
       (map (cell_of cols r) (src_columns src))"

subsection \<open>\<^verbatim>\<open>DewpETL.extract\<close>\<close>

text \<open>
  The class \<^verbatim>\<open>S3BucketConnector\<close> (\<^verbatim>\<open>dewp/common/s3.py\<close>) is not among the sources.
  Its methods \<^verbatim>\<open>list_files_in_prefix\<close> and \<^verbatim>\<open>read_csv_to_df\<close> are parameters of
  \<open>extract_frame\<close>, the model of \<^verbatim>\<open>extract\<close>: each returns its value or the error it
  raises.  The reads are effects, so \<open>extract_frame\<close> also returns the keys it has asked the port to read, in order.
\<close>

text \<open>The list comprehension: the files are read in order and the first error ends it.\<close>

fun read_files ::
  "(string \<Rightarrow> 'e + 'n frame) \<Rightarrow> string list \<Rightarrow> ('e + 'n frame list) \<times> string list" where
  "read_files read_csv_to_df [] = (Inr [], [])"
| "read_files read_csv_to_df (file # files) =
     (case read_csv_to_df file of
        Inl e \<Rightarrow> (Inl e, [file])
      | Inr df \<Rightarrow>
          (case read_files read_csv_to_df files of
             (Inl e, asked) \<Rightarrow> (Inl e, file # asked)
           | (Inr dfs, asked) \<Rightarrow> (Inr (df # dfs), file # asked)))"

text \<open>
  \<^verbatim>\<open>pd.concat(frames, ignore_index=True)\<close>: the columns are the union of the frames'
  columns in the order they first appear, the rows follow frame by frame, and a cell
  that a frame does not have is NaN.
\<close>

definition union_columns :: "string list list \<Rightarrow> string list" where
  "union_columns css = fold (\<lambda>c acc. if c \<in> set acc then acc else acc @ [c]) (concat css) []"

definition concat_frames :: "'n frame list \<Rightarrow> 'n frame" where
  "concat_frames dfs =
     (let cols = union_columns (map columns dfs)
      in \<lparr>columns = cols,
          rows = concat (map (\<lambda>df. map (\<lambda>r. map (cell_of (columns df) r) cols) (rows df)) dfs)\<rparr>)"

definition extract_frame ::
  "(string \<Rightarrow> 'e + string list) \<Rightarrow> (string \<Rightarrow> 'e + 'n frame) \<Rightarrow> DewpSourceConfig
     \<Rightarrow> ('e + 'n frame) \<times> string list" where
  "extract_frame list_files_in_prefix read_csv_to_df src =
     (case list_files_in_prefix (src_files_prefix src) of
        Inl e \<Rightarrow> (Inl e, [])
      | Inr files \<Rightarrow>
          if files = [] then (Inr DataFrame, [])
          else (case read_files read_csv_to_df files of
                  (Inl e, asked) \<Rightarrow> (Inl e, asked)
                | (Inr dfs, asked) \<Rightarrow> (Inr (concat_frames dfs), asked)))"

subsection \<open>\<^verbatim>\<open>DewpETL.load\<close>\<close>

text \<open>
  Modelled from the spec: the method \<^verbatim>\<open>write_df_to_s3\<close> of \<^verbatim>\<open>S3BucketConnector\<close>,
  whose source is missing.  The spec gives the port
  \<^verbatim>\<open>write(data, key, format) -> success\<close>, which writes the relation to an object under
  the key in the format and fails with a write error on backend failure.  The bucket is
  the list of the objects written, in order; \<open>backend\<close> is \<open>None\<close> when the backend
  works and \<open>Some e\<close> when it fails with \<open>e\<close>.
\<close>

type_synonym 'n bucket = "(string \<times> string \<times> 'n frame) list"

definition write_df_to_s3 ::
  "'e option \<Rightarrow> 'n bucket \<Rightarrow> 'n frame \<Rightarrow> string \<Rightarrow> string \<Rightarrow> 'e + 'n bucket" where
  "write_df_to_s3 backend bucket df key fmt =
     (case backend of Some e \<Rightarrow> Inl e | None \<Rightarrow> Inr (bucket @ [(key, fmt, df)]))"

text \<open>
  \<open>load\<close> takes the clock and the formatting of dates as parameters: \<open>today\<close> is what
  \<^verbatim>\<open>datetime.today()\<close> returns and \<open>strftime\<close> is the method of that name.
\<close>

definition load ::
  "('d \<Rightarrow> string \<Rightarrow> string) \<Rightarrow> 'd \<Rightarrow> 'e option \<Rightarrow> DewpTargetConfig \<Rightarrow> 'n frame \<Rightarrow> 'n bucket
     \<Rightarrow> 'e + (bool \<times> 'n bucket)" where
  "load strftime today backend trg data_frame bucket =
     (let target_key = trg_key trg @ strftime today (trg_key_date_format trg) @ ''.''
                         @ trg_format trg
      in case write_df_to_s3 backend bucket data_frame target_key (trg_format trg) of
           Inl e \<Rightarrow> Inl e
         | Inr bucket' \<Rightarrow> Inr (True, bucket'))"

subsection \<open>An instance of the parameters\<close>

text \<open>
  The theorems below hold for every parser of numbers and every reader of query
  expressions that pandas may have.  To apply them at concrete inputs, here is an
  instance that reads the unsigned decimal numerals, on which the parsers agree.
\<close>

fun digit_of :: "char \<Rightarrow> nat option" where
  "digit_of c = map_of (zip ''0123456789'' [0, 1, 2, 3, 4, 5, 6, 7, 8, 9]) c"

fun decimal_from :: "nat \<Rightarrow> string \<Rightarrow> nat option" where
  "decimal_from acc [] = Some acc"
| "decimal_from acc (c # cs) =
     (case digit_of c of None \<Rightarrow> None | Some d \<Rightarrow> decimal_from (10 * acc + d) cs)"

definition decimal :: "string \<Rightarrow> real option" where
  "decimal s = (if s = [] then None else map_option real (decimal_from 0 s))"

definition read_ge :: "string \<Rightarrow> (string \<times> real) option" where
  "read_ge expr =
     (case dropWhile (\<lambda>x. x \<noteq> CHR ''>'') expr of
        a # b # lit \<Rightarrow>
          if b = CHR ''='' then map_option (Pair (takeWhile (\<lambda>x. x \<noteq> CHR ''>'') expr)) (decimal lit)
          else None
      | _ \<Rightarrow> None)"

text \<open>A calendar date and the directives \<^verbatim>\<open>%Y\<close>, \<^verbatim>\<open>%m\<close> and \<^verbatim>\<open>%d\<close> of \<^verbatim>\<open>strftime\<close>.\<close>

record date =
  d_year :: nat
  d_month :: nat
  d_day :: nat

definition digit_char :: "nat \<Rightarrow> char" where
  "digit_char n = ''0123456789'' ! (n mod 10)"

definition pad2 :: "nat \<Rightarrow> string" where
  "pad2 n = [digit_char (n div 10), digit_char n]"

definition pad4 :: "nat \<Rightarrow> string" where
  "pad4 n = [digit_char (n div 1000), digit_char (n div 100)] @ pad2 n"

fun strftime_ymd :: "date \<Rightarrow> string \<Rightarrow> string" where
  "strftime_ymd d [] = []"
| "strftime_ymd d [c] = [c]"
| "strftime_ymd d (c # x # xs) =
     (if c = CHR ''%'' then
        (if x = CHR ''Y'' then pad4 (d_year d)
         else if x = CHR ''m'' then pad2 (d_month d)
         else if x = CHR ''d'' then pad2 (d_day d)
         else [c, x]) @ strftime_ymd d xs
      else c # strftime_ymd d (x # xs))"

definition src_report1 :: DewpSourceConfig where
  "src_report1 =
     \<lparr>src_columns = [''year'', ''agg'', ''code'', ''value''],
      src_col_year = ''year'',
      src_col_industry_aggregation_knzsioc = ''agg'',
      src_col_industry_code_nzsioc = ''code'',
      src_col_value = ''value'',
      src_col_year_filter = ''2015'',
      src_files_prefix = ''data/'',
      src_format = ''csv''\<rparr>"

definition trg_report1 :: DewpTargetConfig where
  "trg_report1 =
     \<lparr>trg_columns = [''year'', ''agg'', ''code'', ''min_value'', ''max_value''],
      trg_col_year = ''year'',
      trg_col_industry_aggregation_knzsioc = ''agg'',
      trg_col_industry_code_nzsioc = ''code'',
      trg_col_min_value = ''min_value'',
      trg_col_max_value = ''max_value'',
      trg_key = ''report1_'',
      trg_key_date_format = ''%Y%m%d'',
      trg_format = ''parquet''\<rparr>"

text \<open>
  The relation of the end-to-end scenario of the specification, one whose year column
  holds texts, and one with a missing industry-aggregation key.
\<close>

definition scenario_frame :: "real frame" where
  "scenario_frame =
     \<lparr>columns = [''year'', ''agg'', ''code'', ''value''],
      rows = [[Num 2016, Str ''A'', Str ''X'', Str ''10''],
              [Num 2016, Str ''A'', Str ''X'', Str ''abc''],
              [Num 2014, Str ''A'', Str ''X'', Str ''99'']]\<rparr>"

definition text_year_frame :: "real frame" where
  "text_year_frame =
     \<lparr>columns = [''year'', ''agg'', ''code'', ''value''],
      rows = [[Str ''2016'', Str ''A'', Str ''X'', Str ''10''],
              [Str ''unknown'', Str ''A'', Str ''X'', Str ''7'']]\<rparr>"

definition missing_key_frame :: "real frame" where
  "missing_key_frame =
     \<lparr>columns = [''year'', ''agg'', ''code'', ''value''],
      rows = [[Num 2016, Str ''A'', Str ''X'', Str ''10''],
              [Num 2016, NaN, Str ''X'', Str ''7'']]\<rparr>"

text \<open>A relation without the value column.\<close>

definition no_value_frame :: "real frame" where
  "no_value_frame =
     \<lparr>columns = [''year'', ''agg'', ''code''],
      rows = [[Num 2016, Str ''A'', Str ''X'']]\<rparr>"

text \<open>A storage port with three files under the prefix, the second of which cannot be
  read, and one with no file.\<close>

definition three_files :: "string \<Rightarrow> string + string list" where
  "three_files prefix = Inr [''a.csv'', ''b.csv'', ''c.csv'']"

definition no_files :: "string \<Rightarrow> string + string list" where
  "no_files prefix = Inr []"

definition second_unreadable :: "string \<Rightarrow> string + real frame" where
  "second_unreadable key = (if key = ''b.csv'' then Inl ''read failed'' else Inr scenario_frame)"

section \<open>Properties\<close>

subsection \<open>Cells, rows and the operations on them\<close>

lemma cell_of_map: "cell_of names (map f names) c = (if c \<in> set names then f c else NaN)"
  by (simp add: cell_of_def map_of_zip_map)

lemma put_cell_Cons:
  "put_cell (n # cols) c v (x # r) = (if n = c then v else x) # put_cell cols c v r"
  by (simp add: put_cell_def)

lemma cell_of_Cons:
  "cell_of (n # cols) (x # r) c = (if c = n then x else cell_of cols r c)"
  by (simp add: cell_of_def)

lemma cell_of_Nil [simp]: "cell_of [] r c = NaN" "cell_of cols [] c = NaN"
  by (simp_all add: cell_of_def)

lemma put_cell_Nil [simp]: "put_cell [] c v r = []" "put_cell cols c v [] = []"
  by (simp_all add: put_cell_def)

lemma cell_of_put_cell_other:
  "c' \<noteq> c \<Longrightarrow> cell_of cols (put_cell cols c v r) c' = cell_of cols r c'"
proof (induction cols arbitrary: r)
  case Nil
  then show ?case by simp
next
  case (Cons n cols)
  then show ?case by (cases r) (auto simp add: put_cell_Cons cell_of_Cons)
qed

lemma cell_of_put_cell_same:
  "c \<in> set cols \<Longrightarrow> length cols \<le> length r \<Longrightarrow> cell_of cols (put_cell cols c v r) c = v"
proof (induction cols arbitrary: r)
  case Nil
  then show ?case by simp
next
  case (Cons n cols)
  then show ?case by (cases r) (auto simp add: put_cell_Cons cell_of_Cons)
qed

lemma put_cell_twice: "put_cell cols c w (put_cell cols c v r) = put_cell cols c w r"
proof (induction cols arbitrary: r)
  case Nil
  then show ?case by simp
next
  case (Cons n cols)
  then show ?case by (cases r) (auto simp add: put_cell_Cons)
qed

lemma setitem_map:
  "c \<in> set (columns df) \<Longrightarrow>
   setitem df c (map g (rows df)) = df\<lparr>rows := map (\<lambda>r. put_cell (columns df) c (g r) r) (rows df)\<rparr>"
  by (simp add: setitem_def zip_map2 zip_same_conv_map)

lemma coerce_step_rows:
  assumes "src_col_value src \<in> set (columns df)"
    and "list_all (\<lambda>r. length (columns df) \<le> length r) (rows df)"
  shows "coerce_step parse src df =
           Inr (df\<lparr>rows := map (\<lambda>r. put_cell (columns df) (src_col_value src)
                      (coerce_cell parse (cell_of (columns df) r (src_col_value src))) r) (rows df)\<rparr>)"
proof -
  let ?c = "src_col_value src"
  let ?cols = "columns df"
  let ?df1 = "df\<lparr>rows := map (\<lambda>r. put_cell ?cols ?c (to_numeric_cell parse (cell_of ?cols r ?c)) r) (rows df)\<rparr>"
  have g: "getitem df ?c = Inr (map (\<lambda>r. cell_of ?cols r ?c) (rows df))"
    using assms(1) by (simp add: getitem_def)
  have s1: "setitem df ?c (to_numeric parse (map (\<lambda>r. cell_of ?cols r ?c) (rows df))) = ?df1"
    using setitem_map [OF assms(1), of "\<lambda>r. to_numeric_cell parse (cell_of ?cols r ?c)"]
    by (simp add: to_numeric_def comp_def)
  have g1: "getitem ?df1 ?c = Inr (map (\<lambda>r. cell_of ?cols r ?c) (rows ?df1))"
    using assms(1) by (simp add: getitem_def)
  have s2: "setitem ?df1 ?c (fillna (map (\<lambda>r. cell_of ?cols r ?c) (rows ?df1)) 0)
              = ?df1\<lparr>rows := map (\<lambda>r. put_cell ?cols ?c (fillna_cell 0 (cell_of ?cols r ?c)) r) (rows ?df1)\<rparr>"
    using setitem_map [of ?c ?df1 "\<lambda>r. fillna_cell 0 (cell_of ?cols r ?c)"] assms(1)
    by (simp add: fillna_def comp_def)
  have rows_eq: "map (\<lambda>r. put_cell ?cols ?c (fillna_cell 0 (cell_of ?cols r ?c)) r) (rows ?df1)
       = map (\<lambda>r. put_cell ?cols ?c (coerce_cell parse (cell_of ?cols r ?c)) r) (rows df)"
    using assms
    by (auto simp add: list_all_iff comp_def put_cell_twice cell_of_put_cell_same coerce_cell_def)
  show ?thesis
    unfolding coerce_step_def g sum.case Let_def s1 g1 s2
    using rows_eq by simp
qed

lemma coerce_cell_Num: "coerce_cell parse x = Num (coerced_num parse x)"
  by (cases x) (simp_all add: coerce_cell_def split: option.splits)

lemma cell_of_prepared_row:
  assumes "x \<in> set (src_columns src)" and "src_col_value src \<in> set (src_columns src)"
  shows "cell_of (src_columns src) (prepared_row parse src cols r) x =
           (if x = src_col_value src then Num (coerced_num parse (cell_of cols r (src_col_value src)))
            else cell_of cols r x)"
  using assms
  by (simp add: prepared_row_def cell_of_put_cell_other cell_of_put_cell_same cell_of_map
      coerce_cell_Num)

lemma project_step_Inr:
  "list_all (\<lambda>c. c \<in> set (columns df)) (src_columns src) \<Longrightarrow>
   project_step src df =
     Inr \<lparr>columns = src_columns src,
          rows = map (\<lambda>r. map (cell_of (columns df) r) (src_columns src)) (rows df)\<rparr>"
  by (simp add: project_step_def loc_columns_def)

lemma coerce_projected:
  assumes "src_col_value src \<in> set (src_columns src)"
  shows "coerce_step parse src
           \<lparr>columns = src_columns src,
            rows = map (\<lambda>r. map (cell_of cols r) (src_columns src)) rs\<rparr>
         = Inr \<lparr>columns = src_columns src, rows = map (prepared_row parse src cols) rs\<rparr>"
  using assms
  by (subst coerce_step_rows) (simp_all add: list_all_iff prepared_row_def comp_def cell_of_map)

lemma set_insert_key: "set (insert_key k xs) = insert k (set xs)"
  by (induction xs) auto

lemma distinct_insert_key: "distinct (insert_key k xs) \<longleftrightarrow> k \<notin> set xs \<and> distinct xs"
  by (induction xs) (auto simp add: set_insert_key)

lemma set_sort_keys: "set (sort_keys ks) = set ks"
  by (induction ks) (simp_all add: sort_keys_def set_insert_key)

lemma distinct_sort_keys: "distinct ks \<Longrightarrow> distinct (sort_keys ks)"
  by (induction ks) (simp_all add: sort_keys_def distinct_insert_key set_sort_keys [unfolded sort_keys_def])

lemma nums_map_Num: "nums (map (\<lambda>r. Num (f r)) xs) = map f xs"
  by (induction xs) simp_all

lemma agg_min_Num:
  "xs \<noteq> [] \<Longrightarrow> agg_min (map (\<lambda>r. Num (f r)) xs) = Num (Min (set (map f xs)))"
  by (cases xs) (simp_all add: agg_min_def nums_map_Num Min.set_eq_fold [symmetric] del: set_map)

lemma agg_max_Num:
  "xs \<noteq> [] \<Longrightarrow> agg_max (map (\<lambda>r. Num (f r)) xs) = Num (Max (set (map f xs)))"
  by (cases xs) (simp_all add: agg_max_def nums_map_Num Max.set_eq_fold [symmetric] del: set_map)

subsection \<open>The steps of the transformation on a non-empty relation\<close>

lemma key_of_prepared_row:
  assumes "wf_config src"
  shows "key_of (src_columns src)
           [src_col_year src, src_col_industry_aggregation_knzsioc src,
            src_col_industry_code_nzsioc src] (prepared_row parse src (columns df) r)
         = group_key src df r"
  using assms
  by (auto simp add: wf_config_def key_of_def group_key_def cell_of_prepared_row)

lemma year_of_prepared_row:
  assumes "wf_config src"
  shows "cell_of (src_columns src) (prepared_row parse src cols r) (src_col_year src)
         = cell_of cols r (src_col_year src)"
  using assms by (auto simp add: wf_config_def cell_of_prepared_row)

lemma value_of_prepared_row:
  assumes "wf_config src"
  shows "cell_of (src_columns src) (prepared_row parse src cols r) (src_col_value src)
         = Num (coerced_num parse (cell_of cols r (src_col_value src)))"
  using assms by (auto simp add: wf_config_def cell_of_prepared_row)

lemma filter_prepared:
  assumes "wf_config src"
    and "rd (src_col_year src @ ''>='' @ src_col_year_filter src) = Some (src_col_year src, t)"
  shows "filter_step rd src
           \<lparr>columns = src_columns src, rows = map (prepared_row parse src (columns df)) (rows df)\<rparr>
         = (if list_ex (\<lambda>r. is_Str (cell_of (columns df) r (src_col_year src))) (rows df)
            then Inl TypeError
            else Inr \<lparr>columns = src_columns src,
                      rows = map (prepared_row parse src (columns df)) (retained_rows t src df)\<rparr>)"
proof -
  have y: "src_col_year src \<in> set (src_columns src)"
    using assms(1) by (simp add: wf_config_def)
  show ?thesis
    using y assms(2)
    by (simp add: filter_step_def query_def list_ex_iff year_of_prepared_row [OF assms(1)]
        retained_rows_def filter_map comp_def)
qed

lemma aggregate_prepared:
  assumes "wf_config src"
  shows "aggregate_step src
           \<lparr>columns = src_columns src,
            rows = map (prepared_row parse src (columns df)) (retained_rows t src df)\<rparr>
         = Inr \<lparr>columns = [src_col_year src, src_col_industry_aggregation_knzsioc src,
                            src_col_industry_code_nzsioc src, ''min_value'', ''max_value''],
                rows = map (\<lambda>k. k @ [agg_min (map Num (group_values parse t src df k)),
                                      agg_max (map Num (group_values parse t src df k))])
                         (sort_keys (remdups (map (group_key src df) (grouped_rows t src df))))\<rparr>"
proof -
  have cols: "list_all (\<lambda>k. k \<in> set (src_columns src))
                [src_col_year src, src_col_industry_aggregation_knzsioc src,
                 src_col_industry_code_nzsioc src]"
    "src_col_value src \<in> set (src_columns src)"
    using assms by (simp_all add: wf_config_def)
  show ?thesis
    unfolding aggregate_step_def groupby_agg_def
    using cols
    by (simp add: Let_def filter_map comp_def key_of_prepared_row [OF assms]
        value_of_prepared_row [OF assms] grouped_rows_def group_values_def)
qed

lemma rename_aggregated:
  assumes "wf_config src"
  shows "rename_step trg
           \<lparr>columns = [src_col_year src, src_col_industry_aggregation_knzsioc src,
                       src_col_industry_code_nzsioc src, ''min_value'', ''max_value''],
            rows = rs\<rparr>
         = \<lparr>columns = [src_col_year src, src_col_industry_aggregation_knzsioc src,
                       src_col_industry_code_nzsioc src, trg_col_min_value trg,
                       trg_col_max_value trg],
            rows = rs\<rparr>"
  using assms by (simp add: rename_step_def rename_def wf_config_def)

lemma transform_nonempty:
  assumes "\<not> df_empty df" and "wf_config src"
    and "rd (src_col_year src @ ''>='' @ src_col_year_filter src) = Some (src_col_year src, t)"
  shows "transform_report1 parse rd src trg df =
          (if \<not> list_all (\<lambda>c. c \<in> set (columns df)) (src_columns src) then Inl KeyError
           else if list_ex (\<lambda>r. is_Str (cell_of (columns df) r (src_col_year src))) (rows df)
           then Inl TypeError
           else Inr \<lparr>columns = [src_col_year src, src_col_industry_aggregation_knzsioc src,
                       src_col_industry_code_nzsioc src, trg_col_min_value trg,
                       trg_col_max_value trg],
                rows = map (\<lambda>k. k @ [agg_min (map Num (group_values parse t src df k)),
                                      agg_max (map Num (group_values parse t src df k))])
                         (sort_keys (remdups (map (group_key src df) (grouped_rows t src df))))\<rparr>)"
proof (cases "list_all (\<lambda>c. c \<in> set (columns df)) (src_columns src)")
  case False
  then show ?thesis
    using assms(1) by (simp add: transform_report1_def project_step_def loc_columns_def)
next
  case True
  have v: "src_col_value src \<in> set (src_columns src)"
    using assms(2) by (simp add: wf_config_def)
  show ?thesis
    using assms(1) True
    by (simp add: transform_report1_def project_step_Inr [OF True] coerce_projected [OF v]
        filter_prepared [where rd = rd and t = t, OF assms(2) assms(3)] aggregate_prepared [OF assms(2)]
        rename_aggregated [OF assms(2)])
qed

subsection \<open>The guard on empty input\<close>

text \<open>
  C4.  For every empty input relation, \<open>transform_report1\<close> returns the same relation
  unchanged: the result is the input whatever the parsers and the configurations are, so
  none of the later steps (projection, coercion, filter, aggregation, rename) has run.
\<close>

theorem transform_empty_identity:
  "df_empty df \<Longrightarrow> transform_report1 parse rd src trg df = Inr df"
  by (simp add: transform_report1_def)

theorem transform_empty_identity_witness:
  "df_empty (DataFrame :: real frame) \<and>
   transform_report1 decimal read_ge src_report1 trg_report1 DataFrame = Inr DataFrame"
  using transform_empty_identity [of "DataFrame :: real frame" decimal read_ge src_report1 trg_report1]
  by (simp add: df_empty_def DataFrame_def)

text \<open>
  C10.  A relation with zero rows is returned unchanged also when it has named columns
  that do not cover the configured source columns: the guard holds on zero rows (or zero
  columns), and the projection, which on this relation raises the \<open>KeyError\<close>, is not
  reached.
\<close>

theorem transform_zero_rows_bypasses_projection:
  "rows df = [] \<or> columns df = [] \<Longrightarrow>
   \<not> list_all (\<lambda>c. c \<in> set (columns df)) (src_columns src) \<Longrightarrow>
   transform_report1 parse rd src trg df = Inr df \<and> project_step src df = Inl KeyError"
  by (auto simp add: transform_report1_def df_empty_def project_step_def loc_columns_def)

theorem transform_zero_rows_bypasses_projection_witness:
  "rows \<lparr>columns = [''foo''], rows = ([] :: real cell list list)\<rparr> = [] \<and>
   \<not> list_all (\<lambda>c. c \<in> set (columns \<lparr>columns = [''foo''], rows = ([] :: real cell list list)\<rparr>))
        (src_columns src_report1) \<and>
   transform_report1 decimal read_ge src_report1 trg_report1
       \<lparr>columns = [''foo''], rows = ([] :: real cell list list)\<rparr>
     = Inr \<lparr>columns = [''foo''], rows = []\<rparr> \<and>
   project_step src_report1 \<lparr>columns = [''foo''], rows = ([] :: real cell list list)\<rparr>
     = Inl KeyError"
  using transform_zero_rows_bypasses_projection
    [of "\<lparr>columns = [''foo''], rows = ([] :: real cell list list)\<rparr>" src_report1
        decimal read_ge trg_report1]
  by (simp add: src_report1_def)


subsection \<open>The coercion\<close>

text \<open>
  C2.  On every relation that has the value column, the coercion step raises nothing
  and keeps every row: the result has the same columns and as many rows, the cells of the
  other columns are unchanged, and a value cell holding a text that does not parse as a
  number holds exactly zero afterwards.
\<close>

theorem coerce_step_zero_fill:
  assumes "wf_frame df" and "src_col_value src \<in> set (columns df)"
  shows "\<exists>df'. coerce_step parse src df = Inr df' \<and> columns df' = columns df \<and>
           length (rows df') = length (rows df) \<and>
           (\<forall>i<length (rows df).
              (\<forall>c. c \<noteq> src_col_value src \<longrightarrow>
                 cell_of (columns df) (rows df' ! i) c = cell_of (columns df) (rows df ! i) c) \<and>
              (\<forall>s. cell_of (columns df) (rows df ! i) (src_col_value src) = Str s \<and> parse s = None
                 \<longrightarrow> cell_of (columns df) (rows df' ! i) (src_col_value src) = Num 0))"
proof -
  have len: "list_all (\<lambda>r. length (columns df) \<le> length r) (rows df)"
    using assms(1) by (simp add: wf_frame_def list_all_iff)
  have len': "\<And>i. i < length (rows df) \<Longrightarrow> length (columns df) \<le> length (rows df ! i)"
    using len by (simp add: list_all_length)
  show ?thesis
    unfolding coerce_step_rows [OF assms(2) len]
    using assms(2) len'
    by (auto simp add: cell_of_put_cell_other cell_of_put_cell_same coerce_cell_def)
qed

theorem coerce_step_zero_fill_witness:
  "wf_frame scenario_frame \<and> src_col_value src_report1 \<in> set (columns scenario_frame) \<and>
   decimal ''abc'' = None \<and>
   cell_of (columns scenario_frame) (rows scenario_frame ! 1) (src_col_value src_report1) = Str ''abc'' \<and>
   (\<exists>df'. coerce_step decimal src_report1 scenario_frame = Inr df' \<and>
      length (rows df') = 3 \<and>
      cell_of (columns scenario_frame) (rows df' ! 1) (src_col_value src_report1) = Num 0)"
proof -
  have h1: "wf_frame scenario_frame"
    by (simp add: wf_frame_def scenario_frame_def)
  have h2: "src_col_value src_report1 \<in> set (columns scenario_frame)"
    by (simp add: scenario_frame_def src_report1_def)
  have h3: "decimal ''abc'' = None"
    by (simp add: decimal_def)
  have h4: "cell_of (columns scenario_frame) (rows scenario_frame ! 1) (src_col_value src_report1)
              = Str ''abc''"
    by (simp add: scenario_frame_def src_report1_def cell_of_def)
  have h5: "length (rows scenario_frame) = 3" "(1::nat) < 3"
    by (simp_all add: scenario_frame_def)
  from coerce_step_zero_fill [OF h1 h2, of decimal] h3 h4 h5
  show ?thesis using h1 h2 by auto
qed

subsection \<open>The year filter\<close>




subsection \<open>The end-to-end scenario\<close>

text \<open>
  C5.  For the three source rows (2016, A, X, "10"), (2016, A, X, "abc") and
  (2014, A, X, "99") with the year filter 2015, \<open>transform_report1\<close> yields exactly one
  row: year 2016, A, X, minimum 0 and maximum 10, under the target names of the two
  aggregates.  This holds for every parser that reads "10" as ten and rejects "abc".
\<close>

theorem transform_scenario:
  fixes parse :: "string \<Rightarrow> real option"
  assumes "parse ''10'' = Some 10" and "parse ''abc'' = None"
    and "rd ''year>=2015'' = Some (''year'', 2015)"
  shows "transform_report1 parse rd src_report1 trg scenario_frame =
           Inr \<lparr>columns = [''year'', ''agg'', ''code'', trg_col_min_value trg, trg_col_max_value trg],
                rows = [[Num 2016, Str ''A'', Str ''X'', Num 0, Num 10]]\<rparr>"
  using assms
  by (simp add: transform_report1_def scenario_frame_def src_report1_def df_empty_def
      project_step_def loc_columns_def cell_of_def coerce_step_def getitem_def setitem_def
      put_cell_def to_numeric_def fillna_def filter_step_def query_def aggregate_step_def
      groupby_agg_def key_of_def sort_keys_def agg_min_def agg_max_def rename_step_def rename_def)

theorem transform_scenario_witness:
  "decimal ''10'' = Some 10 \<and> decimal ''abc'' = None \<and>
   read_ge ''year>=2015'' = Some (''year'', 2015) \<and>
   transform_report1 decimal read_ge src_report1 trg_report1 scenario_frame =
     Inr \<lparr>columns = [''year'', ''agg'', ''code'', ''min_value'', ''max_value''],
          rows = [[Num 2016, Str ''A'', Str ''X'', Num 0, Num 10]]\<rparr>"
proof -
  have h1: "decimal ''10'' = Some 10" by (simp add: decimal_def)
  have h2: "decimal ''abc'' = None" by (simp add: decimal_def)
  have h3: "read_ge ''year>=2015'' = Some (''year'', 2015)"
    by (simp add: read_ge_def decimal_def)
  from transform_scenario [where parse = decimal and rd = read_ge and trg = trg_report1, OF h1 h2 h3]
  show ?thesis using h1 h2 h3 by (simp add: trg_report1_def)
qed

subsection \<open>The aggregates of a group\<close>






subsection \<open>One row for each group\<close>

lemma length_group_key: "length (group_key src df r) = 3"
  by (simp add: group_key_def key_of_def)

lemma set_grouped_rows:
  "set (grouped_rows t src df) =
     {r \<in> set (rows df). ge_cell t (cell_of (columns df) r (src_col_year src)) \<and>
        NaN \<notin> set (group_key src df r)}"
  by (auto simp add: grouped_rows_def retained_rows_def)

text \<open>
  C1, as amended.  Take a non-empty relation that has every configured column and no text
  in its year column, a well-formed configuration and a numeric threshold \<open>t\<close>.  Then
  \<open>transform_report1\<close> returns a relation with exactly one row for each distinct
  (year, industry-aggregation key, industry-code key) triple that is present after the
  year filter and has no missing component, never more and never fewer, and that row
  carries the minimum and the maximum of the coerced values of the rows of its group.
\<close>

theorem transform_one_row_per_group:
  assumes "\<not> df_empty df" and "wf_config src"
    and "rd (src_col_year src @ ''>='' @ src_col_year_filter src) = Some (src_col_year src, t)"
    and "list_all (\<lambda>c. c \<in> set (columns df)) (src_columns src)"
    and "\<not> list_ex (\<lambda>r. is_Str (cell_of (columns df) r (src_col_year src))) (rows df)"
  shows "\<exists>out. transform_report1 parse rd src trg df = Inr out \<and>
           distinct (map (take 3) (rows out)) \<and>
           set (map (take 3) (rows out)) =
             {k. \<exists>r\<in>set (rows df). ge_cell t (cell_of (columns df) r (src_col_year src)) \<and>
                   group_key src df r = k \<and> NaN \<notin> set k} \<and>
           (\<forall>row\<in>set (rows out).
              row = take 3 row @
                [Num (Min {coerced_num parse (cell_of (columns df) r (src_col_value src)) | r.
                       r \<in> set (rows df) \<and>
                       ge_cell t (cell_of (columns df) r (src_col_year src)) \<and>
                       group_key src df r = take 3 row}),
                 Num (Max {coerced_num parse (cell_of (columns df) r (src_col_value src)) | r.
                       r \<in> set (rows df) \<and>
                       ge_cell t (cell_of (columns df) r (src_col_year src)) \<and>
                       group_key src df r = take 3 row})])"
proof -
  let ?groups = "sort_keys (remdups (map (group_key src df) (grouped_rows t src df)))"
  let ?row = "\<lambda>k. k @ [agg_min (map Num (group_values parse t src df k)),
                        agg_max (map Num (group_values parse t src df k))]"
  let ?V = "\<lambda>k. {coerced_num parse (cell_of (columns df) r (src_col_value src)) | r.
                       r \<in> set (rows df) \<and>
                       ge_cell t (cell_of (columns df) r (src_col_year src)) \<and>
                       group_key src df r = k}"
  let ?out = "\<lparr>columns = [src_col_year src, src_col_industry_aggregation_knzsioc src,
                       src_col_industry_code_nzsioc src, trg_col_min_value trg,
                       trg_col_max_value trg],
              rows = map ?row ?groups\<rparr>"
  have res: "transform_report1 parse rd src trg df = Inr ?out"
    using transform_nonempty [where rd = rd and t = t, OF assms(1) assms(2) assms(3)] assms(4,5)
    by simp
  have groups: "set ?groups = group_key src df ` set (grouped_rows t src df)"
    by (simp add: set_sort_keys)
  have len: "\<And>k. k \<in> set ?groups \<Longrightarrow> length k = 3"
    unfolding groups by (auto simp add: length_group_key)
  have take: "\<And>k. k \<in> set ?groups \<Longrightarrow> take 3 (?row k) = k"
    using len by simp
  have keys: "map (take 3) (rows ?out) = ?groups"
    using take by (simp add: comp_def map_idI)
  have d: "distinct ?groups"
    by (simp add: distinct_sort_keys)
  have s: "set ?groups = {k. \<exists>r\<in>set (rows df).
              ge_cell t (cell_of (columns df) r (src_col_year src)) \<and>
              group_key src df r = k \<and> NaN \<notin> set k}"
    unfolding groups set_grouped_rows by auto
  have vals: "\<And>k. k \<in> set ?groups \<Longrightarrow> set (group_values parse t src df k) = ?V k"
    unfolding groups by (auto simp add: group_values_def set_grouped_rows)
  have ne: "\<And>k. k \<in> set ?groups \<Longrightarrow> group_values parse t src df k \<noteq> []"
    unfolding groups by (auto simp add: group_values_def filter_empty_conv)
  have aggs: "\<And>k. k \<in> set ?groups \<Longrightarrow> ?row k = k @ [Num (Min (?V k)), Num (Max (?V k))]"
  proof -
    fix k assume k: "k \<in> set ?groups"
    have "agg_min (map Num (group_values parse t src df k)) = Num (Min (?V k))"
      using agg_min_Num [OF ne [OF k], of "\<lambda>x. x"] vals [OF k] by simp
    moreover have "agg_max (map Num (group_values parse t src df k)) = Num (Max (?V k))"
      using agg_max_Num [OF ne [OF k], of "\<lambda>x. x"] vals [OF k] by simp
    ultimately show "?row k = k @ [Num (Min (?V k)), Num (Max (?V k))]"
      by simp
  qed
  have rows: "\<forall>row\<in>set (rows ?out). row = take 3 row @ [Num (Min (?V (take 3 row))),
      Num (Max (?V (take 3 row)))]"
  proof
    fix row assume "row \<in> set (rows ?out)"
    then obtain k where k: "k \<in> set ?groups" and row: "row = ?row k"
      by auto
    from take [OF k] aggs [OF k] show "row = take 3 row @ [Num (Min (?V (take 3 row))),
      Num (Max (?V (take 3 row)))]"
      unfolding row by simp
  qed
  have k1: "distinct (map (take 3) (rows ?out))"
    unfolding keys by (rule d)
  have k2: "set (map (take 3) (rows ?out)) = {k. \<exists>r\<in>set (rows df).
              ge_cell t (cell_of (columns df) r (src_col_year src)) \<and>
              group_key src df r = k \<and> NaN \<notin> set k}"
    unfolding keys by (rule s)
  show ?thesis
    by (intro exI [of _ ?out] conjI) (fact res, fact k1, fact k2, fact rows)
qed


text \<open>The definitions that evaluate a run of \<open>transform_report1\<close> on a concrete relation.\<close>

lemmas run_defs =
  transform_report1_def src_report1_def trg_report1_def
  df_empty_def project_step_def loc_columns_def cell_of_def coerce_step_def getitem_def
  setitem_def put_cell_def to_numeric_def fillna_def decimal_def filter_step_def query_def
  read_ge_def aggregate_step_def groupby_agg_def key_of_def sort_keys_def agg_min_def
  agg_max_def rename_step_def rename_def

text \<open>The amended C1 at a relation with two triples after the filter, one of them with a
  missing component.\<close>

theorem transform_one_row_per_group_witness:
  "\<not> df_empty missing_key_frame \<and> wf_config src_report1 \<and>
   read_ge (src_col_year src_report1 @ ''>='' @ src_col_year_filter src_report1)
     = Some (src_col_year src_report1, 2015) \<and>
   list_all (\<lambda>c. c \<in> set (columns missing_key_frame)) (src_columns src_report1) \<and>
   \<not> list_ex (\<lambda>r. is_Str (cell_of (columns missing_key_frame) r (src_col_year src_report1)))
       (rows missing_key_frame) \<and>
   (\<exists>out. transform_report1 decimal read_ge src_report1 trg_report1 missing_key_frame = Inr out \<and>
      distinct (map (take 3) (rows out)) \<and>
      set (map (take 3) (rows out)) =
        {k. \<exists>r\<in>set (rows missing_key_frame).
              ge_cell 2015 (cell_of (columns missing_key_frame) r (src_col_year src_report1)) \<and>
              group_key src_report1 missing_key_frame r = k \<and> NaN \<notin> set k})"
proof -
  have h1: "\<not> df_empty missing_key_frame"
    by (simp add: df_empty_def missing_key_frame_def)
  have h2: "wf_config src_report1"
    by (simp add: wf_config_def src_report1_def)
  have h3: "read_ge (src_col_year src_report1 @ ''>='' @ src_col_year_filter src_report1)
     = Some (src_col_year src_report1, 2015)"
    by (simp add: read_ge_def decimal_def src_report1_def)
  have h4: "list_all (\<lambda>c. c \<in> set (columns missing_key_frame)) (src_columns src_report1)"
    by (simp add: missing_key_frame_def src_report1_def)
  have h5: "\<not> list_ex (\<lambda>r. is_Str (cell_of (columns missing_key_frame) r
       (src_col_year src_report1))) (rows missing_key_frame)"
    by (simp add: missing_key_frame_def src_report1_def cell_of_def)
  from transform_one_row_per_group [where rd = read_ge and t = 2015 and parse = decimal
      and trg = trg_report1, OF h1 h2 h3 h4 h5]
  show ?thesis using h1 h2 h3 h4 h5 by blast
qed

text \<open>
  C1 as stated fails: a triple with a missing component is present after the year filter
  and has no row in the output.  The relation below keeps both of its rows through the
  projection, the coercion and the filter, and the output has the row of one triple only.
\<close>

theorem transform_drops_missing_key_counterexample:
  "project_step src_report1 missing_key_frame = Inr missing_key_frame \<and>
   coerce_step decimal src_report1 missing_key_frame =
     Inr \<lparr>columns = [''year'', ''agg'', ''code'', ''value''],
          rows = [[Num 2016, Str ''A'', Str ''X'', Num 10],
                  [Num 2016, NaN, Str ''X'', Num 7]]\<rparr> \<and>
   filter_step read_ge src_report1
       \<lparr>columns = [''year'', ''agg'', ''code'', ''value''],
        rows = [[Num 2016, Str ''A'', Str ''X'', Num 10],
                [Num 2016, NaN, Str ''X'', Num 7]]\<rparr> =
     Inr \<lparr>columns = [''year'', ''agg'', ''code'', ''value''],
          rows = [[Num 2016, Str ''A'', Str ''X'', Num 10],
                  [Num 2016, NaN, Str ''X'', Num 7]]\<rparr> \<and>
   transform_report1 decimal read_ge src_report1 trg_report1 missing_key_frame =
     Inr \<lparr>columns = [''year'', ''agg'', ''code'', ''min_value'', ''max_value''],
          rows = [[Num 2016, Str ''A'', Str ''X'', Num 10, Num 10]]\<rparr>"
  by (simp add: run_defs missing_key_frame_def)

subsection \<open>The exception paths\<close>

text \<open>
  C6, as amended.  On a non-empty relation, a configured source column that is absent
  from the relation makes \<open>transform_report1\<close> fail with the \<open>KeyError\<close> of the
  projection, and no relation is returned.  It is not the only exception path: with a
  well-formed configuration, a numeric threshold and every configured column present,
  the year filter raises a \<open>TypeError\<close> when the year column holds a text, and otherwise
  a relation is returned.
\<close>

theorem transform_exception_paths:
  assumes "\<not> df_empty df"
  shows "((\<exists>c\<in>set (src_columns src). c \<notin> set (columns df)) \<longrightarrow>
            transform_report1 parse rd src trg df = Inl KeyError) \<and>
         (wf_config src \<and>
          rd (src_col_year src @ ''>='' @ src_col_year_filter src) = Some (src_col_year src, t) \<and>
          (\<forall>c\<in>set (src_columns src). c \<in> set (columns df)) \<longrightarrow>
            (if \<exists>r\<in>set (rows df). is_Str (cell_of (columns df) r (src_col_year src))
             then transform_report1 parse rd src trg df = Inl TypeError
             else \<exists>out. transform_report1 parse rd src trg df = Inr out))"
proof (intro conjI impI)
  assume "\<exists>c\<in>set (src_columns src). c \<notin> set (columns df)"
  then show "transform_report1 parse rd src trg df = Inl KeyError"
    using assms
    by (auto simp add: transform_report1_def project_step_def loc_columns_def list_all_iff)
next
  assume h: "wf_config src \<and>
          rd (src_col_year src @ ''>='' @ src_col_year_filter src) = Some (src_col_year src, t) \<and>
          (\<forall>c\<in>set (src_columns src). c \<in> set (columns df))"
  then have wf: "wf_config src"
    and rd: "rd (src_col_year src @ ''>='' @ src_col_year_filter src) = Some (src_col_year src, t)"
    and all: "list_all (\<lambda>c. c \<in> set (columns df)) (src_columns src)"
    by (simp_all add: list_all_iff)
  show "if \<exists>r\<in>set (rows df). is_Str (cell_of (columns df) r (src_col_year src))
        then transform_report1 parse rd src trg df = Inl TypeError
        else \<exists>out. transform_report1 parse rd src trg df = Inr out"
    using transform_nonempty [where rd = rd and t = t, OF assms wf rd] all
    by (simp add: list_ex_iff)
qed

text \<open>The amended C6 at a relation without the value column.\<close>

theorem transform_exception_paths_witness:
  "\<not> df_empty no_value_frame \<and>
   ''value'' \<in> set (src_columns src_report1) \<and> ''value'' \<notin> set (columns no_value_frame) \<and>
   transform_report1 decimal read_ge src_report1 trg_report1 no_value_frame = Inl KeyError"
proof -
  have h1: "\<not> df_empty no_value_frame"
    by (simp add: df_empty_def no_value_frame_def)
  have h2: "''value'' \<in> set (src_columns src_report1)"
    by (simp add: src_report1_def)
  have h3: "''value'' \<notin> set (columns no_value_frame)"
    by (simp add: no_value_frame_def)
  from transform_exception_paths [OF h1, of src_report1 decimal read_ge trg_report1] h2 h3
  show ?thesis using h1 by blast
qed

text \<open>
  C6 as stated fails: the relation below has every configured column, and
  \<open>transform_report1\<close> raises all the same, a \<open>TypeError\<close> and not a schema mismatch.
\<close>

theorem transform_text_year_counterexample:
  "\<not> df_empty text_year_frame \<and>
   set (src_columns src_report1) \<subseteq> set (columns text_year_frame) \<and>
   transform_report1 decimal read_ge src_report1 trg_report1 text_year_frame = Inl TypeError"
  by (simp add: run_defs text_year_frame_def)

subsection \<open>Loading\<close>

text \<open>
  C7.  With the clock fixed at \<open>today\<close>, \<open>load\<close> writes the relation under the key
  that is the target prefix, then today's date formatted with the configured pattern,
  then a dot, then the target format: the bucket gains exactly that one object and
  \<open>load\<close> returns \<open>True\<close>.  When the backend fails, its error is the result and nothing
  is written.
\<close>

theorem load_target_key:
  "load strftime today None trg df bucket =
     Inr (True, bucket @ [(trg_key trg @ strftime today (trg_key_date_format trg) @ ''.''
                             @ trg_format trg, trg_format trg, df)]) \<and>
   load strftime today (Some e) trg df bucket = Inl e"
  by (simp add: load_def write_df_to_s3_def)

text \<open>The example of the specification: prefix \<^verbatim>\<open>report1_\<close>, pattern \<^verbatim>\<open>%Y%m%d\<close>, format
  \<^verbatim>\<open>parquet\<close> and the date 2024-03-01.\<close>

theorem load_target_key_witness:
  "load strftime_ymd \<lparr>d_year = 2024, d_month = 3, d_day = 1\<rparr> (None :: string option)
      trg_report1 scenario_frame [] =
     Inr (True, [(''report1_20240301.parquet'', ''parquet'', scenario_frame)])"
  using load_target_key [of strftime_ymd "\<lparr>d_year = 2024, d_month = 3, d_day = 1\<rparr>"
      trg_report1 scenario_frame "[]" "''x''", THEN conjunct1]
  by (simp add: trg_report1_def pad4_def pad2_def digit_char_def)

subsection \<open>Extracting\<close>

lemma read_files_first_failure:
  assumes "\<forall>f\<in>set pre. \<exists>df. read_csv_to_df f = Inr df" and "read_csv_to_df file = Inl e"
  shows "read_files read_csv_to_df (pre @ file # post) = (Inl e, pre @ [file])"
  using assms by (induction pre) auto

lemma read_files_some_failure:
  assumes "\<exists>f\<in>set files. \<exists>e. read_csv_to_df f = Inl e"
  shows "\<exists>f\<in>set files. \<exists>e. read_csv_to_df f = Inl e \<and>
           fst (read_files read_csv_to_df files) = Inl e"
  using assms
proof (induction files)
  case Nil
  then show ?case by simp
next
  case (Cons f files)
  show ?case
  proof (cases "read_csv_to_df f")
    case (Inl e)
    then show ?thesis by auto
  next
    case (Inr df)
    with Cons.prems have "\<exists>f\<in>set files. \<exists>e. read_csv_to_df f = Inl e"
      by auto
    from Cons.IH [OF this] obtain g e where "g \<in> set files" "read_csv_to_df g = Inl e"
      "fst (read_files read_csv_to_df files) = Inl e"
      by blast
    then show ?thesis
      using Inr by (cases "read_files read_csv_to_df files") auto
  qed
qed

text \<open>
  C8.  Let the port list \<open>files\<close> under the prefix.  If the list is empty, \<open>extract\<close>
  returns the empty relation without columns and reads nothing.  If the read of a listed
  file fails after the files before it were read, \<open>extract\<close> fails with that very
  error, returns no relation, and has asked for each file up to the failing one once and
  for none after it.  In general, when some read fails, the result is the error of a
  failing read.
\<close>

theorem extract_read_failure:
  assumes "list_files_in_prefix (src_files_prefix src) = Inr files"
  shows "(files = [] \<longrightarrow>
            extract_frame list_files_in_prefix read_csv_to_df src = (Inr DataFrame, []) \<and>
            columns (DataFrame :: 'n frame) = [] \<and> rows (DataFrame :: 'n frame) = []) \<and>
         (\<forall>pre file post e.
            files = pre @ file # post \<and> (\<forall>f\<in>set pre. \<exists>df. read_csv_to_df f = Inr df) \<and>
            read_csv_to_df file = Inl e \<longrightarrow>
            extract_frame list_files_in_prefix read_csv_to_df src
              = (Inl e :: 'e + 'n frame, pre @ [file])) \<and>
         ((\<exists>f\<in>set files. \<exists>e. read_csv_to_df f = Inl e) \<longrightarrow>
            (\<exists>f\<in>set files. \<exists>e. read_csv_to_df f = Inl e \<and>
               fst (extract_frame list_files_in_prefix read_csv_to_df src) = Inl e))"
proof (intro conjI impI allI)
  assume "files = []"
  then show "extract_frame list_files_in_prefix read_csv_to_df src = (Inr DataFrame, [])"
    using assms by (simp add: extract_frame_def)
next
  show "columns (DataFrame :: 'n frame) = []" "rows (DataFrame :: 'n frame) = []"
    by (simp_all add: DataFrame_def)
next
  fix pre fl post e
  assume "files = pre @ fl # post \<and> (\<forall>f\<in>set pre. \<exists>df. read_csv_to_df f = Inr df) \<and>
            read_csv_to_df fl = Inl e"
  then show "extract_frame list_files_in_prefix read_csv_to_df src = (Inl e, pre @ [fl])"
    using assms by (simp add: extract_frame_def read_files_first_failure)
next
  assume h: "\<exists>f\<in>set files. \<exists>e. read_csv_to_df f = Inl e"
  then have ne: "files \<noteq> []" by auto
  from read_files_some_failure [OF h] obtain f e where
    "f \<in> set files" "read_csv_to_df f = Inl e" "fst (read_files read_csv_to_df files) = Inl e"
    by blast
  then show "\<exists>f\<in>set files. \<exists>e. read_csv_to_df f = Inl e \<and>
               fst (extract_frame list_files_in_prefix read_csv_to_df src) = Inl e"
    using assms ne
    by (cases "read_files read_csv_to_df files") (auto simp add: extract_frame_def)
qed

theorem extract_read_failure_witness:
  "three_files (src_files_prefix src_report1) = Inr [''a.csv'', ''b.csv'', ''c.csv''] \<and>
   second_unreadable ''a.csv'' = Inr scenario_frame \<and>
   second_unreadable ''b.csv'' = Inl ''read failed'' \<and>
   extract_frame three_files second_unreadable src_report1
     = (Inl ''read failed'', [''a.csv'', ''b.csv'']) \<and>
   extract_frame no_files second_unreadable src_report1 = (Inr DataFrame, [])"
proof -
  have h: "three_files (src_files_prefix src_report1) = Inr [''a.csv'', ''b.csv'', ''c.csv'']"
    by (simp add: three_files_def)
  have a: "second_unreadable ''a.csv'' = Inr scenario_frame"
    and b: "second_unreadable ''b.csv'' = Inl ''read failed''"
    by (simp_all add: second_unreadable_def)
  have n: "no_files (src_files_prefix src_report1) = Inr []"
    by (simp add: no_files_def)
  from extract_read_failure [where list_files_in_prefix = three_files and src = src_report1
      and read_csv_to_df = second_unreadable, OF h]
  have "\<forall>pre fl post e.
          [''a.csv'', ''b.csv'', ''c.csv''] = pre @ fl # post \<and>
          (\<forall>f\<in>set pre. \<exists>df. second_unreadable f = Inr df) \<and> second_unreadable fl = Inl e \<longrightarrow>
          extract_frame three_files second_unreadable src_report1 = (Inl e, pre @ [fl])"
    by blast
  from this [rule_format, of "[''a.csv'']" "''b.csv''" "[''c.csv'']" "''read failed''"] a b
  have r1: "extract_frame three_files second_unreadable src_report1
     = (Inl ''read failed'', [''a.csv'', ''b.csv''])"
    by simp
  from extract_read_failure [where list_files_in_prefix = no_files and src = src_report1
      and read_csv_to_df = second_unreadable, OF n]
  have r2: "extract_frame no_files second_unreadable src_report1 = (Inr DataFrame, [])"
    by simp
  from h a b r1 r2 show ?thesis by simp
qed


end
